theory Spec2Isabelle
  imports Complex_Main
begin

section \<open>Numbers and enumerations\<close>

text \<open>
  JavaScript numbers are modelled as rationals with exact arithmetic. Every table entry
  of the optimizers is a small integer and every threshold of the classifier is a short
  decimal, so the model computes with the values the source writes down; the rounding of
  IEEE doubles is outside the model.
\<close>

type_synonym number = rat

text \<open>\<^verbatim>\<open>Math.round\<close>: the nearest integer, a half rounding towards plus infinity.\<close>

definition Math_round :: "number \<Rightarrow> number" where
  "Math_round x = of_int \<lfloor>x + 1 / 2\<rfloor>"

text \<open>The union type \<^verbatim>\<open>'conservative' | 'moderate' | 'aggressive'\<close>.\<close>

datatype riskProfile = Conservative | Moderate | Aggressive

text \<open>The union type \<^verbatim>\<open>'bearish' | 'neutral' | 'bullish'\<close> (\<^verbatim>\<open>MarketCondition\<close>).\<close>

datatype marketCondition = Bearish | Neutral | Bullish

section \<open>Client optimizer: \<^verbatim>\<open>calculateOptimalAllocation\<close> (portfolio/mcp/utils.ts)\<close>

record assetAllocation =
  equity :: number
  debt :: number
  gold :: number
  cash :: number

fun baseAllocations :: "riskProfile \<Rightarrow> assetAllocation" where
  "baseAllocations Conservative = \<lparr>equity = 30, debt = 45, gold = 15, cash = 10\<rparr>"
| "baseAllocations Moderate = \<lparr>equity = 50, debt = 30, gold = 12, cash = 8\<rparr>"
| "baseAllocations Aggressive = \<lparr>equity = 70, debt = 15, gold = 10, cash = 5\<rparr>"

fun marketAdjustments :: "marketCondition \<Rightarrow> assetAllocation" where
  "marketAdjustments Bullish = \<lparr>equity = 10, debt = -5, gold = -3, cash = -2\<rparr>"
| "marketAdjustments Bearish = \<lparr>equity = -15, debt = 8, gold = 5, cash = 2\<rparr>"
| "marketAdjustments Neutral = \<lparr>equity = 0, debt = 0, gold = 0, cash = 0\<rparr>"

text \<open>Lines 47 to 52: the adjustment is added to the base and every bucket is clamped.\<close>

definition applyAdjustments :: "assetAllocation \<Rightarrow> assetAllocation \<Rightarrow> assetAllocation" where
  "applyAdjustments base adjustment =
     \<lparr>equity = max 10 (min 90 (equity base + equity adjustment)),
      debt = max 10 (min 70 (debt base + debt adjustment)),
      gold = max 0 (min 30 (gold base + gold adjustment)),
      cash = max 0 (min 30 (cash base + cash adjustment))\<rparr>"

text \<open>
  Lines 54 to 71: scaling by \<^verbatim>\<open>100 / total\<close>, rounding, and the residual put on equity.
  The clamped equity and debt are at least 10 each, so \<open>total\<close> is never zero.
\<close>

definition normalizeAllocation :: "assetAllocation \<Rightarrow> assetAllocation" where
  "normalizeAllocation adjusted0 =
     (let total = equity adjusted0 + debt adjusted0 + gold adjusted0 + cash adjusted0;
          factor = 100 / total;
          adjusted = \<lparr>equity = Math_round (equity adjusted0 * factor),
                      debt = Math_round (debt adjusted0 * factor),
                      gold = Math_round (gold adjusted0 * factor),
                      cash = Math_round (cash adjusted0 * factor)\<rparr>;
          finalTotal = equity adjusted + debt adjusted + gold adjusted + cash adjusted
      in if finalTotal \<noteq> 100
         then adjusted\<lparr>equity := equity adjusted + (100 - finalTotal)\<rparr>
         else adjusted)"

definition calculateOptimalAllocation :: "riskProfile \<Rightarrow> marketCondition \<Rightarrow> assetAllocation" where
  "calculateOptimalAllocation riskProfile marketCondition =
     (let base = baseAllocations riskProfile;
          adjustment = marketAdjustments marketCondition
      in normalizeAllocation (applyAdjustments base adjustment))"

section \<open>Server optimizer: \<^verbatim>\<open>optimizePortfolio\<close> (server/services/prediction.ts)\<close>

text \<open>
  The four categories of the server variant. The source's field \<^verbatim>\<open>cash\<close> is written
  \<open>cash_srv\<close> here, the name \<open>cash\<close> being taken by the client record above.
\<close>

record categoryMix =
  stocks :: number
  bonds :: number
  cash_srv :: number
  alternatives :: number

fun baseAllocations_srv :: "riskProfile \<Rightarrow> categoryMix" where
  "baseAllocations_srv Conservative = \<lparr>stocks = 30, bonds = 45, cash_srv = 15, alternatives = 10\<rparr>"
| "baseAllocations_srv Moderate = \<lparr>stocks = 50, bonds = 30, cash_srv = 10, alternatives = 10\<rparr>"
| "baseAllocations_srv Aggressive = \<lparr>stocks = 70, bonds = 15, cash_srv = 5, alternatives = 10\<rparr>"

fun marketAdjustments_srv :: "marketCondition \<Rightarrow> categoryMix" where
  "marketAdjustments_srv Bearish = \<lparr>stocks = -10, bonds = 5, cash_srv = 5, alternatives = 0\<rparr>"
| "marketAdjustments_srv Neutral = \<lparr>stocks = 0, bonds = 0, cash_srv = 0, alternatives = 0\<rparr>"
| "marketAdjustments_srv Bullish = \<lparr>stocks = 10, bonds = -5, cash_srv = -5, alternatives = 0\<rparr>"

text \<open>\<^verbatim>\<open>Object.entries\<close> and \<^verbatim>\<open>Object.values\<close> list the keys in insertion order.\<close>

definition Object_entries :: "categoryMix \<Rightarrow> (string \<times> number) list" where
  "Object_entries m =
     [(''stocks'', stocks m), (''bonds'', bonds m), (''cash'', cash_srv m),
      (''alternatives'', alternatives m)]"

definition Object_values :: "categoryMix \<Rightarrow> number list" where
  "Object_values m = [stocks m, bonds m, cash_srv m, alternatives m]"

record categoryShare =
  category :: string
  percentage :: number

record optimizedPortfolio =
  allocation :: "categoryShare list"
  expectedReturn :: number
  riskLevel :: number

definition expectedReturns :: "(string \<times> number) list" where
  "expectedReturns = [(''stocks'', 10), (''bonds'', 5), (''cash'', 2), (''alternatives'', 8)]"

definition riskLevels :: "(string \<times> number) list" where
  "riskLevels = [(''stocks'', 16), (''bonds'', 6), (''cash'', 1), (''alternatives'', 12)]"

text \<open>\<^verbatim>\<open>table[key] || 0\<close>: a missing key, like a zero entry, reads as 0.\<close>

definition lookup_or_zero :: "(string \<times> number) list \<Rightarrow> string \<Rightarrow> number" where
  "lookup_or_zero table key = (case map_of table key of None \<Rightarrow> 0 | Some v \<Rightarrow> v)"

text \<open>
  The bases and adjustments of the tables keep \<open>total\<close> at 100, so the division is
  never by zero on the inputs the function's type admits.
\<close>

definition optimizePortfolio :: "riskProfile \<Rightarrow> marketCondition \<Rightarrow> optimizedPortfolio" where
  "optimizePortfolio riskProfile marketCondition =
     (let base = baseAllocations_srv riskProfile;
          adjustment = marketAdjustments_srv marketCondition;
          optimizedAllocation =
            \<lparr>stocks = max 0 (min 100 (stocks base + stocks adjustment)),
             bonds = max 0 (min 100 (bonds base + bonds adjustment)),
             cash_srv = max 0 (min 100 (cash_srv base + cash_srv adjustment)),
             alternatives = max 0 (min 100 (alternatives base + alternatives adjustment))\<rparr>;
          total = foldl (\<lambda>sum val. sum + val) 0 (Object_values optimizedAllocation);
          allocation =
            map (\<lambda>(category, percentage).
                   \<lparr>category = category,
                    percentage = Math_round ((percentage / total) * 100)\<rparr>)
              (Object_entries optimizedAllocation);
          expectedReturn =
            foldl (\<lambda>total item.
                     total + lookup_or_zero expectedReturns (category item) * percentage item / 100)
              0 allocation;
          riskLevel =
            foldl (\<lambda>total item.
                     total + lookup_or_zero riskLevels (category item) * percentage item / 100)
              0 allocation
      in \<lparr>allocation = allocation, expectedReturn = expectedReturn, riskLevel = riskLevel\<rparr>)"

text \<open>
  Neither optimizer reads or writes anything but its two arguments and tables local to
  its body. An invocation in an ambient state \<open>w\<close> (module variables, the clock, the random
  generator, the network) therefore returns the value above and leaves \<open>w\<close> as it was.
\<close>

definition calculateOptimalAllocation_call ::
  "riskProfile \<Rightarrow> marketCondition \<Rightarrow> 'w \<Rightarrow> assetAllocation \<times> 'w" where
  "calculateOptimalAllocation_call riskProfile marketCondition w =
     (calculateOptimalAllocation riskProfile marketCondition, w)"

definition optimizePortfolio_call ::
  "riskProfile \<Rightarrow> marketCondition \<Rightarrow> 'w \<Rightarrow> optimizedPortfolio \<times> 'w" where
  "optimizePortfolio_call riskProfile marketCondition w =
     (optimizePortfolio riskProfile marketCondition, w)"

section \<open>Signal classifier: \<^verbatim>\<open>determineMarketCondition\<close> (server/services/market.ts)\<close>

datatype trend = Up | Down | Sideways

datatype emotion = Positive | Negative | NeutralEmotion

text \<open>The result of \<^verbatim>\<open>predictMarketMovement\<close>.\<close>

record marketPrediction =
  prediction :: "number list"
  confidence :: number
  trend :: trend

text \<open>
  The result of \<^verbatim>\<open>analyzeNewsSentiment\<close>; its field \<^verbatim>\<open>confidence\<close> is written
  \<open>confidence_snt\<close>, the name \<open>confidence\<close> being taken by the record above.
\<close>

record sentimentAnalysis =
  score :: number
  emotion :: emotion
  confidence_snt :: number

text \<open>An entry of \<^verbatim>\<open>signals\<close>; its field \<^verbatim>\<open>value\<close> is written \<open>val\<close>.\<close>

record signal =
  type :: string
  val :: marketCondition
  weight :: number

record scores =
  bearishScore :: number
  bullishScore :: number
  neutralScore :: number

text \<open>The body of the \<^verbatim>\<open>forEach\<close> callback (lines 132 to 136).\<close>

definition addSignal :: "scores \<Rightarrow> signal \<Rightarrow> scores" where
  "addSignal s sg =
     (if val sg = Bearish then s\<lparr>bearishScore := bearishScore s + weight sg\<rparr>
      else if val sg = Bullish then s\<lparr>bullishScore := bullishScore s + weight sg\<rparr>
      else s\<lparr>neutralScore := neutralScore s + weight sg\<rparr>)"

text \<open>
  Lines 85 to 151: the \<^verbatim>\<open>try\<close> body once both awaited sources have answered. The
  logging is left out.
\<close>

definition weightedCondition ::
  "number \<Rightarrow> number \<Rightarrow> marketPrediction \<Rightarrow> sentimentAnalysis \<Rightarrow> marketCondition" where
  "weightedCondition vixValue mainIndexChange marketPrediction sentimentAnalysis =
     (let vixSignal =
            (if vixValue > 25 then Bearish else if vixValue < 15 then Bullish else Neutral);
          predictionSignal =
            (if trend marketPrediction = Up \<and> confidence marketPrediction > 4 / 10
             then Bullish
             else if trend marketPrediction = Down \<and> confidence marketPrediction > 4 / 10
             then Bearish else Neutral);
          sentimentSignal =
            (if score sentimentAnalysis > 15 / 10 \<and> confidence_snt sentimentAnalysis > 4 / 10
             then Bullish
             else if score sentimentAnalysis < - (15 / 10)
                     \<and> confidence_snt sentimentAnalysis > 4 / 10
             then Bearish else Neutral);
          currentSignal =
            (if mainIndexChange > 1 then Bullish
             else if mainIndexChange < - 1 then Bearish else Neutral);
          signals =
            [\<lparr>type = ''vix'', val = vixSignal, weight = 1\<rparr>,
             \<lparr>type = ''prediction'', val = predictionSignal, weight = 15 / 10\<rparr>,
             \<lparr>type = ''sentiment'', val = sentimentSignal, weight = 1\<rparr>,
             \<lparr>type = ''current'', val = currentSignal, weight = 12 / 10\<rparr>];
          s = foldl addSignal \<lparr>bearishScore = 0, bullishScore = 0, neutralScore = 0\<rparr> signals
      in if bearishScore s > bullishScore s \<and> bearishScore s > neutralScore s then Bearish
         else if bullishScore s > bearishScore s \<and> bullishScore s > neutralScore s then Bullish
         else Neutral)"

text \<open>Lines 155 to 174: the \<^verbatim>\<open>catch\<close> body.\<close>

definition fallbackCondition :: "number \<Rightarrow> number \<Rightarrow> marketCondition" where
  "fallbackCondition vixValue mainIndexChange =
     (if vixValue > 25 then (if mainIndexChange < - (5 / 10) then Bearish else Neutral)
      else if vixValue < 15 then (if mainIndexChange > 5 / 10 then Bullish else Neutral)
      else if mainIndexChange > 1 then Bullish
      else if mainIndexChange < - 1 then Bearish
      else Neutral)"

text \<open>
  The collaborators are the quote source, the trend source and the sentiment source.
  A call takes the state \<open>'w\<close> of the world outside the function and returns the next one
  together with its answer; \<open>Inl\<close> is a thrown exception or a rejected promise.
\<close>

datatype error = Thrown

record quoteResult =
  regularMarketPrice :: "number option"
  regularMarketChangePercent :: "number option"

record 'w collaborators =
  yf_quote :: "string \<Rightarrow> 'w \<Rightarrow> (error + quoteResult) \<times> 'w"
  predictMarketMovement :: "string \<Rightarrow> nat \<Rightarrow> 'w \<Rightarrow> (error + marketPrediction) \<times> 'w"
  analyzeNewsSentiment :: "string \<Rightarrow> 'w \<Rightarrow> (error + sentimentAnalysis) \<times> 'w"

definition determineMarketCondition ::
  "'w collaborators \<Rightarrow> number \<Rightarrow> number \<Rightarrow> string \<Rightarrow> 'w \<Rightarrow> marketCondition \<times> 'w" where
  "determineMarketCondition cs vixValue mainIndexChange mainIndexSymbol w =
     (case predictMarketMovement cs mainIndexSymbol 5 w of
        (Inl e, w1) \<Rightarrow> (fallbackCondition vixValue mainIndexChange, w1)
      | (Inr marketPrediction, w1) \<Rightarrow>
          (case analyzeNewsSentiment cs mainIndexSymbol w1 of
             (Inl e, w2) \<Rightarrow> (fallbackCondition vixValue mainIndexChange, w2)
           | (Inr sentimentAnalysis, w2) \<Rightarrow>
               (weightedCondition vixValue mainIndexChange marketPrediction sentimentAnalysis,
                w2)))"

text \<open>
  Lines 178 to 211, \<^verbatim>\<open>determineMarketTrend\<close>: the predicted trend when its confidence
  exceeds 0.5, the sign of the recent change otherwise and when the prediction throws.
\<close>

definition simpleTrend :: "number \<Rightarrow> trend" where
  "simpleTrend change =
     (if change > 5 / 10 then Up else if change < - (5 / 10) then Down else Sideways)"

definition determineMarketTrend ::
  "'w collaborators \<Rightarrow> number \<Rightarrow> string \<Rightarrow> 'w \<Rightarrow> trend \<times> 'w" where
  "determineMarketTrend cs change symbol w =
     (case predictMarketMovement cs symbol 5 w of
        (Inl e, w1) \<Rightarrow> (simpleTrend change, w1)
      | (Inr p, w1) \<Rightarrow> (if confidence p > 5 / 10 then trend p else simpleTrend change, w1))"

subsection \<open>The classifier as the specification words it\<close>

text \<open>
  Steps 1 to 6 of the specification's classifier: four signals, their weights, the
  weighted sum of every bucket, and the bucket whose sum is strictly the greatest, neutral
  when there is none.
\<close>

definition volatility_signal_spec :: "number \<Rightarrow> marketCondition" where
  "volatility_signal_spec v = (if v > 25 then Bearish else if v < 15 then Bullish else Neutral)"

definition trend_signal_spec :: "trend \<Rightarrow> number \<Rightarrow> marketCondition" where
  "trend_signal_spec t c =
     (if t = Up \<and> c > 4 / 10 then Bullish else if t = Down \<and> c > 4 / 10 then Bearish
      else Neutral)"

definition sentiment_signal_spec :: "number \<Rightarrow> number \<Rightarrow> marketCondition" where
  "sentiment_signal_spec sc c =
     (if sc > 15 / 10 \<and> c > 4 / 10 then Bullish
      else if sc < - (15 / 10) \<and> c > 4 / 10 then Bearish else Neutral)"

definition change_signal_spec :: "number \<Rightarrow> marketCondition" where
  "change_signal_spec ch = (if ch > 1 then Bullish else if ch < - 1 then Bearish else Neutral)"

definition votes_spec ::
  "number \<Rightarrow> number \<Rightarrow> trend \<Rightarrow> number \<Rightarrow> number \<Rightarrow> number \<Rightarrow> (marketCondition \<times> number) list"
  where
  "votes_spec v ch t tc sc scc =
     [(volatility_signal_spec v, 1), (trend_signal_spec t tc, 15 / 10),
      (sentiment_signal_spec sc scc, 1), (change_signal_spec ch, 12 / 10)]"

definition weighted_sum_spec :: "(marketCondition \<times> number) list \<Rightarrow> marketCondition \<Rightarrow> number" where
  "weighted_sum_spec votes b = sum_list (map snd (filter (\<lambda>vote. fst vote = b) votes))"

definition strictly_greatest_spec :: "(marketCondition \<times> number) list \<Rightarrow> marketCondition \<Rightarrow> bool" where
  "strictly_greatest_spec votes b =
     list_all (\<lambda>b'. b' = b \<or> weighted_sum_spec votes b' < weighted_sum_spec votes b)
       [Bearish, Neutral, Bullish]"

definition classify_spec ::
  "number \<Rightarrow> number \<Rightarrow> trend \<Rightarrow> number \<Rightarrow> number \<Rightarrow> number \<Rightarrow> marketCondition" where
  "classify_spec v ch t tc sc scc =
     (let votes = votes_spec v ch t tc sc scc
      in if strictly_greatest_spec votes Bearish then Bearish
         else if strictly_greatest_spec votes Bullish then Bullish
         else Neutral)"

text \<open>
  The specification's failure semantics: the same thresholds as the full model, the
  volatility decided first and the recent change consulted only in the neutral band.
\<close>

definition fallback_spec :: "number \<Rightarrow> number \<Rightarrow> marketCondition" where
  "fallback_spec v ch =
     (if volatility_signal_spec v \<noteq> Neutral then volatility_signal_spec v
      else change_signal_spec ch)"

section \<open>Market data: \<^verbatim>\<open>getMarketCondition\<close> (server/services/market.ts)\<close>

text \<open>
  \<^verbatim>\<open>String.prototype.toUpperCase\<close> on the ASCII letters. Strings are byte lists here, so
  the case mappings of characters beyond ASCII are outside the model.
\<close>

definition toUpperCase_char :: "char \<Rightarrow> char" where
  "toUpperCase_char c =
     (case map_of (zip ''abcdefghijklmnopqrstuvwxyz'' ''ABCDEFGHIJKLMNOPQRSTUVWXYZ'') c of
        None \<Rightarrow> c
      | Some u \<Rightarrow> u)"

definition toUpperCase :: "string \<Rightarrow> string" where
  "toUpperCase s = map toUpperCase_char s"

record indexSymbol =
  symbol :: string
  name :: string

record marketSymbols =
  volatilityIndex :: string
  mainIndex :: string
  additionalIndices :: "indexSymbol list"

text \<open>
  \<^verbatim>\<open>MARKET_SYMBOLS\<close>, an object literal read by key. Its prototype has no property
  whose name is free of lower-case letters, so after the upper-casing a read finds
  exactly the four own keys.
\<close>

definition MARKET_SYMBOLS :: "(string \<times> marketSymbols) list" where
  "MARKET_SYMBOLS =
     [(''US'', \<lparr>volatilityIndex = ''^VIX'', mainIndex = ''^GSPC'',
               additionalIndices =
                 [\<lparr>symbol = ''^IXIC'', name = ''NASDAQ''\<rparr>,
                  \<lparr>symbol = ''^DJI'', name = ''Dow Jones''\<rparr>,
                  \<lparr>symbol = ''^RUT'', name = ''Russell 2000''\<rparr>]\<rparr>),
      (''IN'', \<lparr>volatilityIndex = ''^INDIAVIX'', mainIndex = ''^NSEI'',
               additionalIndices =
                 [\<lparr>symbol = ''^BSESN'', name = ''Sensex''\<rparr>,
                  \<lparr>symbol = ''^NSEBANK'', name = ''Bank Nifty''\<rparr>,
                  \<lparr>symbol = ''^CNXIT'', name = ''Nifty IT''\<rparr>]\<rparr>),
      (''UK'', \<lparr>volatilityIndex = ''^FTSE'', mainIndex = ''^FTSE'',
               additionalIndices =
                 [\<lparr>symbol = ''^FTMC'', name = ''FTSE 250''\<rparr>,
                  \<lparr>symbol = ''^FTLC'', name = ''FTSE 100''\<rparr>]\<rparr>),
      (''SG'', \<lparr>volatilityIndex = ''^STI'', mainIndex = ''^STI'',
               additionalIndices =
                 [\<lparr>symbol = ''^STI'', name = ''Straits Times Index''\<rparr>]\<rparr>)]"

text \<open>An entry of \<^verbatim>\<open>localIndices\<close> (\<^verbatim>\<open>MarketIndices\<close>), fields \<^verbatim>\<open>name\<close>, \<^verbatim>\<open>value\<close>, \<^verbatim>\<open>change\<close>.\<close>

record marketIndices =
  idx_name :: string
  idx_value :: number
  idx_change :: number

text \<open>The field \<^verbatim>\<open>indicators\<close> of the result, fields \<^verbatim>\<open>volatilityIndex\<close>, \<^verbatim>\<open>mainIndex\<close>, \<^verbatim>\<open>trend\<close>.\<close>

record indicators =
  ind_volatilityIndex :: number
  ind_mainIndex :: number
  ind_trend :: trend

text \<open>The result (\<^verbatim>\<open>MarketData\<close>); its field \<^verbatim>\<open>locale\<close> is written \<open>locale_fld\<close>.\<close>

record marketData =
  condition :: marketCondition
  locale_fld :: string
  indicators :: indicators
  localIndices :: "marketIndices list"

text \<open>An entry of \<^verbatim>\<open>DEFAULT_MARKET_DATA\<close>, which has the keys US and IN only.\<close>

record defaultMarketData =
  def_volatilityIndex :: number
  def_mainIndex :: number
  def_additionalIndices :: "marketIndices list"

definition DEFAULT_MARKET_DATA_US :: defaultMarketData where
  "DEFAULT_MARKET_DATA_US =
     \<lparr>def_volatilityIndex = 20, def_mainIndex = 4000,
      def_additionalIndices =
        [\<lparr>idx_name = ''NASDAQ'', idx_value = 12000, idx_change = - (5 / 10)\<rparr>,
         \<lparr>idx_name = ''Dow Jones'', idx_value = 33000, idx_change = - (3 / 10)\<rparr>]\<rparr>"

definition DEFAULT_MARKET_DATA_IN :: defaultMarketData where
  "DEFAULT_MARKET_DATA_IN =
     \<lparr>def_volatilityIndex = 16, def_mainIndex = 21500,
      def_additionalIndices =
        [\<lparr>idx_name = ''Sensex'', idx_value = 72000, idx_change = - (4 / 10)\<rparr>,
         \<lparr>idx_name = ''Bank Nifty'', idx_value = 44000, idx_change = - (6 / 10)\<rparr>]\<rparr>"

text \<open>\<^verbatim>\<open>x || 0\<close> on a number that may be undefined.\<close>

definition or_zero :: "number option \<Rightarrow> number" where
  "or_zero x = (case x of None \<Rightarrow> 0 | Some v \<Rightarrow> v)"

text \<open>
  Lines 234 to 247: one quote for each additional index; a quote that throws or has no
  (or a zero) price is skipped. The accumulator \<open>found\<close> is the array \<^verbatim>\<open>localIndices\<close>.
\<close>

fun fetchAdditionalIndices ::
  "'w collaborators \<Rightarrow> indexSymbol list \<Rightarrow> marketIndices list \<Rightarrow> 'w \<Rightarrow> marketIndices list \<times> 'w"
  where
  "fetchAdditionalIndices cs [] found w = (found, w)"
| "fetchAdditionalIndices cs (index # rest) found w =
     (case yf_quote cs (symbol index) w of
        (Inl e, w') \<Rightarrow> fetchAdditionalIndices cs rest found w'
      | (Inr result, w') \<Rightarrow>
          (case regularMarketPrice result of
             None \<Rightarrow> fetchAdditionalIndices cs rest found w'
           | Some price \<Rightarrow>
               if price = 0 then fetchAdditionalIndices cs rest found w'
               else fetchAdditionalIndices cs rest
                      (found @
                         [\<lparr>idx_name = name index, idx_value = price,
                           idx_change = or_zero (regularMarketChangePercent result)\<rparr>])
                      w'))"

text \<open>Lines 216 to 219: the locale is upper-cased and replaced by IN when it is no key.\<close>

definition normalizeLocale :: "string \<Rightarrow> string" where
  "normalizeLocale locale0 =
     (let locale = toUpperCase locale0
      in if map_of MARKET_SYMBOLS locale = None then ''IN'' else locale)"

text \<open>Lines 264 to 278: the \<^verbatim>\<open>catch\<close> body, reached with the normalized locale.\<close>

definition defaultResponse :: "string \<Rightarrow> marketData" where
  "defaultResponse locale =
     (let defaultData = (if locale = ''US'' then DEFAULT_MARKET_DATA_US else DEFAULT_MARKET_DATA_IN)
      in \<lparr>condition = Neutral, locale_fld = locale,
          indicators = \<lparr>ind_volatilityIndex = def_volatilityIndex defaultData,
                        ind_mainIndex = def_mainIndex defaultData,
                        ind_trend = Sideways\<rparr>,
          localIndices = def_additionalIndices defaultData\<rparr>)"

text \<open>
  The function on a string argument. A read of a property of an undefined \<^verbatim>\<open>symbols\<close>
  would throw and be caught, which is the first branch below.
\<close>

definition getMarketCondition :: "'w collaborators \<Rightarrow> string \<Rightarrow> 'w \<Rightarrow> marketData \<times> 'w" where
  "getMarketCondition cs locale0 w0 =
     (let locale = normalizeLocale locale0
      in case map_of MARKET_SYMBOLS locale of
           None \<Rightarrow> (defaultResponse locale, w0)
         | Some symbols \<Rightarrow>
             (case yf_quote cs (volatilityIndex symbols) w0 of
                (Inl e, w1) \<Rightarrow> (defaultResponse locale, w1)
              | (Inr vixResult, w1) \<Rightarrow>
                  (case yf_quote cs (mainIndex symbols) w1 of
                     (Inl e, w2) \<Rightarrow> (defaultResponse locale, w2)
                   | (Inr mainIndexResult, w2) \<Rightarrow>
                       (let vixValue = or_zero (regularMarketPrice vixResult);
                            mainIndexValue = or_zero (regularMarketPrice mainIndexResult);
                            mainIndexChange =
                              or_zero (regularMarketChangePercent mainIndexResult);
                            (localIndices, w3) =
                              fetchAdditionalIndices cs (additionalIndices symbols) [] w2;
                            (marketCondition, w4) =
                              determineMarketCondition cs vixValue mainIndexChange
                                (mainIndex symbols) w3;
                            (marketTrend, w5) =
                              determineMarketTrend cs mainIndexChange (mainIndex symbols) w4
                        in (\<lparr>condition = marketCondition, locale_fld = locale,
                             indicators = \<lparr>ind_volatilityIndex = vixValue,
                                           ind_mainIndex = mainIndexValue,
                                           ind_trend = marketTrend\<rparr>,
                             localIndices = localIndices\<rparr>, w5)))))"

section \<open>The route \<^verbatim>\<open>POST /api/portfolio/optimize\<close> (server/routes.ts)\<close>

text \<open>
  A field of the parsed JSON body: any JSON value, or undefined when the key is absent.
\<close>

datatype jsvalue =
    JUndefined
  | JNull
  | JBool bool
  | JNumber number
  | JString string
  | JArray "jsvalue list"
  | JObject "(string \<times> jsvalue) list"

text \<open>\<^verbatim>\<open>!x\<close> is true on undefined, null, false, 0 and the empty string.\<close>

fun falsy :: "jsvalue \<Rightarrow> bool" where
  "falsy JUndefined = True"
| "falsy JNull = True"
| "falsy (JBool b) = (\<not> b)"
| "falsy (JNumber n) = (n = 0)"
| "falsy (JString s) = (s = [])"
| "falsy (JArray xs) = False"
| "falsy (JObject kvs) = False"

text \<open>
  \<^verbatim>\<open>[...].includes(x)\<close> on an array of string literals: only a string can be equal to
  one of them, a parsed array or object being a reference of its own.
\<close>

fun Array_includes :: "string list \<Rightarrow> jsvalue \<Rightarrow> bool" where
  "Array_includes xs (JString s) = (s \<in> set xs)"
| "Array_includes xs v = False"

record requestBody =
  riskProfile_field :: jsvalue
  marketCondition_field :: jsvalue

datatype responseJson = ErrorJson string | PortfolioJson optimizedPortfolio

record response =
  status :: nat
  json :: responseJson

text \<open>
  The cast \<^verbatim>\<open>riskProfile as 'conservative' | 'moderate' | 'aggressive'\<close> checks nothing at
  run time; a string that is no key of the optimizer's tables would make it read a
  property of undefined, which throws.
\<close>

fun riskProfile_of :: "jsvalue \<Rightarrow> riskProfile option" where
  "riskProfile_of (JString s) =
     (if s = ''conservative'' then Some Conservative
      else if s = ''moderate'' then Some Moderate
      else if s = ''aggressive'' then Some Aggressive else None)"
| "riskProfile_of v = None"

fun marketCondition_of :: "jsvalue \<Rightarrow> marketCondition option" where
  "marketCondition_of (JString s) =
     (if s = ''bearish'' then Some Bearish
      else if s = ''neutral'' then Some Neutral
      else if s = ''bullish'' then Some Bullish else None)"
| "marketCondition_of v = None"

definition optimize_route :: "requestBody \<Rightarrow> response" where
  "optimize_route body =
     (let riskProfile = riskProfile_field body;
          marketCondition = marketCondition_field body
      in if falsy riskProfile \<or> falsy marketCondition
         then \<lparr>status = 400, json = ErrorJson ''Risk profile and market condition are required''\<rparr>
         else if \<not> Array_includes [''conservative'', ''moderate'', ''aggressive''] riskProfile
         then \<lparr>status = 400, json = ErrorJson ''Invalid risk profile''\<rparr>
         else if \<not> Array_includes [''bearish'', ''neutral'', ''bullish''] marketCondition
         then \<lparr>status = 400, json = ErrorJson ''Invalid market condition''\<rparr>
         else (case (riskProfile_of riskProfile, marketCondition_of marketCondition) of
                 (Some r, Some c) \<Rightarrow> \<lparr>status = 200, json = PortfolioJson (optimizePortfolio r c)\<rparr>
               | _ \<Rightarrow> \<lparr>status = 500, json = ErrorJson ''Failed to optimize portfolio''\<rparr>))"

section \<open>Two sets of collaborators for concrete runs\<close>

text \<open>
  The state of the world is the number of calls made so far. The first set answers every
  call: a quote of 10 with a change of 2 per cent, an upward trend of confidence 0.9 and
  a sentiment score of 2 of confidence 0.9. The second set throws on every call. In the
  third only the sentiment source throws.
\<close>

definition sources_answering :: "nat collaborators" where
  "sources_answering =
     \<lparr>yf_quote = (\<lambda>sym w.
        (Inr \<lparr>regularMarketPrice = Some 10, regularMarketChangePercent = Some 2\<rparr>, Suc w)),
      predictMarketMovement = (\<lambda>sym days w.
        (Inr \<lparr>prediction = [], confidence = 9 / 10, trend = Up\<rparr>, Suc w)),
      analyzeNewsSentiment = (\<lambda>sym w.
        (Inr \<lparr>score = 2, emotion = Positive, confidence_snt = 9 / 10\<rparr>, Suc w))\<rparr>"

definition sources_throwing :: "nat collaborators" where
  "sources_throwing =
     \<lparr>yf_quote = (\<lambda>sym w. (Inl Thrown, Suc w)),
      predictMarketMovement = (\<lambda>sym days w. (Inl Thrown, Suc w)),
      analyzeNewsSentiment = (\<lambda>sym w. (Inl Thrown, Suc w))\<rparr>"

definition sources_sentiment_throwing :: "nat collaborators" where
  "sources_sentiment_throwing =
     sources_answering\<lparr>analyzeNewsSentiment := (\<lambda>sym w. (Inl Thrown, Suc w))\<rparr>"

section \<open>Evaluating the optimizers\<close>

lemma Math_round_of_int [simp]: "Math_round (of_int n) = of_int n"
  by (simp add: Math_round_def floor_eq_iff)

lemma Math_round_numeral [simp]: "Math_round (numeral n) = numeral n"
  using Math_round_of_int [of "numeral n"] by simp

lemma Math_round_zero [simp]: "Math_round 0 = 0"
  using Math_round_of_int [of 0] by simp

lemma calculateOptimalAllocation_table:
  "calculateOptimalAllocation Conservative Bearish = \<lparr>equity = 15, debt = 53, gold = 20, cash = 12\<rparr>"
  "calculateOptimalAllocation Conservative Neutral = \<lparr>equity = 30, debt = 45, gold = 15, cash = 10\<rparr>"
  "calculateOptimalAllocation Conservative Bullish = \<lparr>equity = 40, debt = 40, gold = 12, cash = 8\<rparr>"
  "calculateOptimalAllocation Moderate Bearish = \<lparr>equity = 35, debt = 38, gold = 17, cash = 10\<rparr>"
  "calculateOptimalAllocation Moderate Neutral = \<lparr>equity = 50, debt = 30, gold = 12, cash = 8\<rparr>"
  "calculateOptimalAllocation Moderate Bullish = \<lparr>equity = 60, debt = 25, gold = 9, cash = 6\<rparr>"
  "calculateOptimalAllocation Aggressive Bearish = \<lparr>equity = 55, debt = 23, gold = 15, cash = 7\<rparr>"
  "calculateOptimalAllocation Aggressive Neutral = \<lparr>equity = 70, debt = 15, gold = 10, cash = 5\<rparr>"
  "calculateOptimalAllocation Aggressive Bullish = \<lparr>equity = 80, debt = 10, gold = 7, cash = 3\<rparr>"
  by (simp_all add: calculateOptimalAllocation_def applyAdjustments_def normalizeAllocation_def Let_def)

lemma optimizePortfolio_allocation_table:
  "allocation (optimizePortfolio Conservative Bearish) = [\<lparr>category = ''stocks'', percentage = 20\<rparr>, \<lparr>category = ''bonds'', percentage = 50\<rparr>, \<lparr>category = ''cash'', percentage = 20\<rparr>, \<lparr>category = ''alternatives'', percentage = 10\<rparr>]"
  "allocation (optimizePortfolio Conservative Neutral) = [\<lparr>category = ''stocks'', percentage = 30\<rparr>, \<lparr>category = ''bonds'', percentage = 45\<rparr>, \<lparr>category = ''cash'', percentage = 15\<rparr>, \<lparr>category = ''alternatives'', percentage = 10\<rparr>]"
  "allocation (optimizePortfolio Conservative Bullish) = [\<lparr>category = ''stocks'', percentage = 40\<rparr>, \<lparr>category = ''bonds'', percentage = 40\<rparr>, \<lparr>category = ''cash'', percentage = 10\<rparr>, \<lparr>category = ''alternatives'', percentage = 10\<rparr>]"
  "allocation (optimizePortfolio Moderate Bearish) = [\<lparr>category = ''stocks'', percentage = 40\<rparr>, \<lparr>category = ''bonds'', percentage = 35\<rparr>, \<lparr>category = ''cash'', percentage = 15\<rparr>, \<lparr>category = ''alternatives'', percentage = 10\<rparr>]"
  "allocation (optimizePortfolio Moderate Neutral) = [\<lparr>category = ''stocks'', percentage = 50\<rparr>, \<lparr>category = ''bonds'', percentage = 30\<rparr>, \<lparr>category = ''cash'', percentage = 10\<rparr>, \<lparr>category = ''alternatives'', percentage = 10\<rparr>]"
  "allocation (optimizePortfolio Moderate Bullish) = [\<lparr>category = ''stocks'', percentage = 60\<rparr>, \<lparr>category = ''bonds'', percentage = 25\<rparr>, \<lparr>category = ''cash'', percentage = 5\<rparr>, \<lparr>category = ''alternatives'', percentage = 10\<rparr>]"
  "allocation (optimizePortfolio Aggressive Bearish) = [\<lparr>category = ''stocks'', percentage = 60\<rparr>, \<lparr>category = ''bonds'', percentage = 20\<rparr>, \<lparr>category = ''cash'', percentage = 10\<rparr>, \<lparr>category = ''alternatives'', percentage = 10\<rparr>]"
  "allocation (optimizePortfolio Aggressive Neutral) = [\<lparr>category = ''stocks'', percentage = 70\<rparr>, \<lparr>category = ''bonds'', percentage = 15\<rparr>, \<lparr>category = ''cash'', percentage = 5\<rparr>, \<lparr>category = ''alternatives'', percentage = 10\<rparr>]"
  "allocation (optimizePortfolio Aggressive Bullish) = [\<lparr>category = ''stocks'', percentage = 80\<rparr>, \<lparr>category = ''bonds'', percentage = 10\<rparr>, \<lparr>category = ''cash'', percentage = 0\<rparr>, \<lparr>category = ''alternatives'', percentage = 10\<rparr>]"
  by (simp_all add: optimizePortfolio_def Object_entries_def Object_values_def Let_def)

section \<open>Properties of the optimizers\<close>

text \<open>
  Claim C1. For every risk profile and every market condition, both optimizers return
  four percentages that are integers, are not negative, and add up to exactly 100:
  \<^verbatim>\<open>calculateOptimalAllocation\<close> in its four fields, \<^verbatim>\<open>optimizePortfolio\<close> in the four
  entries of its \<^verbatim>\<open>allocation\<close> array.
\<close>

theorem allocation_sums_to_100:
  "(let a = calculateOptimalAllocation r c
    in equity a \<in> \<int> \<and> debt a \<in> \<int> \<and> gold a \<in> \<int> \<and> cash a \<in> \<int>
       \<and> 0 \<le> equity a \<and> 0 \<le> debt a \<and> 0 \<le> gold a \<and> 0 \<le> cash a
       \<and> equity a + debt a + gold a + cash a = 100)
   \<and> (let ps = map percentage (allocation (optimizePortfolio r c))
       in length ps = 4 \<and> (\<forall>p \<in> set ps. p \<in> \<int> \<and> 0 \<le> p) \<and> sum_list ps = 100)"
  by (cases r; cases c;
      simp add: calculateOptimalAllocation_table optimizePortfolio_allocation_table)

theorem allocation_sums_to_100_witness:
  "(let a = calculateOptimalAllocation Moderate Bearish
    in equity a \<in> \<int> \<and> debt a \<in> \<int> \<and> gold a \<in> \<int> \<and> cash a \<in> \<int>
       \<and> 0 \<le> equity a \<and> 0 \<le> debt a \<and> 0 \<le> gold a \<and> 0 \<le> cash a
       \<and> equity a + debt a + gold a + cash a = 100)
   \<and> (let ps = map percentage (allocation (optimizePortfolio Moderate Bearish))
       in length ps = 4 \<and> (\<forall>p \<in> set ps. p \<in> \<int> \<and> 0 \<le> p) \<and> sum_list ps = 100)"
  by (rule allocation_sums_to_100)

text \<open>
  Claim C4. After the adjustment is added to the base and clamped, every bucket lies in
  its bound, whatever the base and the adjustment are: equity in [10, 90], debt in
  [10, 70], gold and cash in [0, 30]. An equity adjustment of 30 on the aggressive base
  of 70 gives 90, not 100.
\<close>

theorem clamp_within_bounds:
  "(let a = applyAdjustments base adjustment
    in 10 \<le> equity a \<and> equity a \<le> 90 \<and> 10 \<le> debt a \<and> debt a \<le> 70
       \<and> 0 \<le> gold a \<and> gold a \<le> 30 \<and> 0 \<le> cash a \<and> cash a \<le> 30)
   \<and> equity (applyAdjustments (baseAllocations Aggressive)
                (adjustment\<lparr>equity := 30\<rparr>)) = 90"
  by (simp add: applyAdjustments_def Let_def)

text \<open>
  Claim C6. The two scenarios of the specification: conservative in a bearish market
  gives 15, 53, 20, 12 and aggressive in a bullish market gives 80, 10, 7, 3. In both
  the clamps change nothing (the clamped record is base plus adjustment), the total
  before scaling is 100, and the rounded buckets add up to 100, so that the residual
  branch is not taken.
\<close>

theorem spec_scenarios:
  "calculateOptimalAllocation Conservative Bearish
     = \<lparr>equity = 15, debt = 53, gold = 20, cash = 12\<rparr>
   \<and> calculateOptimalAllocation Aggressive Bullish
     = \<lparr>equity = 80, debt = 10, gold = 7, cash = 3\<rparr>
   \<and> (let a = applyAdjustments (baseAllocations Conservative) (marketAdjustments Bearish);
          total = equity a + debt a + gold a + cash a;
          factor = 100 / total
      in a = \<lparr>equity = 30 + (- 15), debt = 45 + 8, gold = 15 + 5, cash = 10 + 2\<rparr>
         \<and> total = 100
         \<and> Math_round (equity a * factor) + Math_round (debt a * factor)
             + Math_round (gold a * factor) + Math_round (cash a * factor) = 100)
   \<and> (let a = applyAdjustments (baseAllocations Aggressive) (marketAdjustments Bullish);
          total = equity a + debt a + gold a + cash a;
          factor = 100 / total
      in a = \<lparr>equity = 70 + 10, debt = 15 + (- 5), gold = 10 + (- 3), cash = 5 + (- 2)\<rparr>
         \<and> total = 100
         \<and> Math_round (equity a * factor) + Math_round (debt a * factor)
             + Math_round (gold a * factor) + Math_round (cash a * factor) = 100)"
  by (simp add: calculateOptimalAllocation_table applyAdjustments_def Let_def)

text \<open>
  Claim C8. A neutral market is an identity: for every risk profile the result of
  \<^verbatim>\<open>calculateOptimalAllocation\<close> is the base allocation of that profile, unchanged.
\<close>

theorem neutral_is_identity:
  "calculateOptimalAllocation r Neutral = baseAllocations r
   \<and> baseAllocations Conservative = \<lparr>equity = 30, debt = 45, gold = 15, cash = 10\<rparr>
   \<and> baseAllocations Moderate = \<lparr>equity = 50, debt = 30, gold = 12, cash = 8\<rparr>
   \<and> baseAllocations Aggressive = \<lparr>equity = 70, debt = 15, gold = 10, cash = 5\<rparr>"
  by (cases r; simp add: calculateOptimalAllocation_table)

text \<open>
  Claim C9. In every market condition the equity share grows strictly with the risk
  profile: conservative below moderate below aggressive.
\<close>

theorem equity_increasing_in_risk:
  "equity (calculateOptimalAllocation Conservative c)
     < equity (calculateOptimalAllocation Moderate c)
   \<and> equity (calculateOptimalAllocation Moderate c)
     < equity (calculateOptimalAllocation Aggressive c)"
  by (cases c; simp add: calculateOptimalAllocation_table)

section \<open>Properties of the classifier\<close>

text \<open>
  The weighted count of the source, a fold over the four signals, is the specification's
  choice of the bucket with the strictly greatest weighted sum, for any four signals.
\<close>

lemma tally_eq:
  "(let s = foldl addSignal \<lparr>bearishScore = 0, bullishScore = 0, neutralScore = 0\<rparr>
              [\<lparr>type = ''vix'', val = a, weight = 1\<rparr>,
               \<lparr>type = ''prediction'', val = b, weight = 15 / 10\<rparr>,
               \<lparr>type = ''sentiment'', val = c, weight = 1\<rparr>,
               \<lparr>type = ''current'', val = d, weight = 12 / 10\<rparr>]
    in if bearishScore s > bullishScore s \<and> bearishScore s > neutralScore s then Bearish
       else if bullishScore s > bearishScore s \<and> bullishScore s > neutralScore s then Bullish
       else Neutral)
   = (let votes = [(a, 1), (b, 15 / 10), (c, 1), (d, 12 / 10)]
      in if strictly_greatest_spec votes Bearish then Bearish
         else if strictly_greatest_spec votes Bullish then Bullish
         else Neutral)"
  by (cases a; cases b; cases c; cases d;
      simp add: addSignal_def strictly_greatest_spec_def weighted_sum_spec_def)

lemma weightedCondition_classify:
  "weightedCondition vix ch mp sa =
     classify_spec vix ch (trend mp) (confidence mp) (score sa) (confidence_snt sa)"
  unfolding weightedCondition_def classify_spec_def votes_spec_def
    volatility_signal_spec_def trend_signal_spec_def sentiment_signal_spec_def
    change_signal_spec_def Let_def
  by (rule tally_eq [unfolded Let_def])

lemma classify_spec_examples:
  "classify_spec 10 2 Up (9 / 10) 2 (9 / 10) = Bullish"
  "classify_spec 30 0 Sideways 0 2 (9 / 10) = Neutral"
  "classify_spec 30 0 Up (9 / 10) (- 2) (9 / 10) = Bearish"
  by (simp_all add: classify_spec_def votes_spec_def strictly_greatest_spec_def weighted_sum_spec_def
     volatility_signal_spec_def trend_signal_spec_def sentiment_signal_spec_def
    change_signal_spec_def)

text \<open>
  Claim C2. When the trend source and the sentiment source both answer, the classifier
  returns what the specification's six steps describe, for every volatility, recent
  change, trend, sentiment score and confidence: each input is mapped to a signal by
  its thresholds (volatility above 25 bearish, below 15 bullish; trend up or down with
  confidence above 0.4; sentiment above 1.5 or below -1.5 with confidence above 0.4;
  change above 1 or below -1), the signals weigh 1.0, 1.5, 1.0 and 1.2, and the bucket
  with the strictly greatest weighted sum wins, neutral otherwise.
\<close>

theorem classifier_weighted_vote:
  assumes "predictMarketMovement cs symb 5 w = (Inr mp, w1)"
    and "analyzeNewsSentiment cs symb w1 = (Inr sa, w2)"
  shows "determineMarketCondition cs vix ch symb w
           = (classify_spec vix ch (trend mp) (confidence mp) (score sa) (confidence_snt sa), w2)"
  using assms by (simp add: determineMarketCondition_def weightedCondition_classify)

theorem classifier_weighted_vote_witness:
  "predictMarketMovement sources_answering ''^NSEI'' 5 0
     = (Inr \<lparr>prediction = [], confidence = 9 / 10, trend = Up\<rparr>, 1)
   \<and> analyzeNewsSentiment sources_answering ''^NSEI'' 1
     = (Inr \<lparr>score = 2, emotion = Positive, confidence_snt = 9 / 10\<rparr>, 2)
   \<and> determineMarketCondition sources_answering 10 2 ''^NSEI'' 0 = (Bullish, 2)"
proof -
  have p: "predictMarketMovement sources_answering ''^NSEI'' 5 0
     = (Inr \<lparr>prediction = [], confidence = 9 / 10, trend = Up\<rparr>, 1)"
    by (simp add: sources_answering_def)
  have a: "analyzeNewsSentiment sources_answering ''^NSEI'' 1
     = (Inr \<lparr>score = 2, emotion = Positive, confidence_snt = 9 / 10\<rparr>, 2)"
    by (simp add: sources_answering_def)
  show ?thesis
    using classifier_weighted_vote [OF p a, of 10 2] p a
    by (simp add: classify_spec_examples)
qed




section \<open>Properties of the route and of the calls\<close>

text \<open>
  Claim C5. A request whose risk profile is not one of the three profile strings, or
  whose market condition is not one of the three condition strings, is answered with
  status 400 and one of the three error messages; no portfolio is computed for it.
\<close>

theorem invalid_request_rejected:
  assumes "riskProfile_field body \<notin> {JString ''conservative'', JString ''moderate'', JString ''aggressive''}
           \<or> marketCondition_field body \<notin> {JString ''bearish'', JString ''neutral'', JString ''bullish''}"
  shows "status (optimize_route body) = 400
         \<and> json (optimize_route body) \<in> {ErrorJson ''Risk profile and market condition are required'',
               ErrorJson ''Invalid risk profile'', ErrorJson ''Invalid market condition''}"
proof -
  have r: "Array_includes [''conservative'', ''moderate'', ''aggressive''] v
             \<longleftrightarrow> v \<in> {JString ''conservative'', JString ''moderate'', JString ''aggressive''}" for v
    by (cases v) auto
  have c: "Array_includes [''bearish'', ''neutral'', ''bullish''] v
             \<longleftrightarrow> v \<in> {JString ''bearish'', JString ''neutral'', JString ''bullish''}" for v
    by (cases v) auto
  show ?thesis
    using assms unfolding optimize_route_def Let_def r c by auto
qed

theorem invalid_request_rejected_witness:
  "JString ''balanced'' \<notin> {JString ''conservative'', JString ''moderate'', JString ''aggressive''}
   \<and> optimize_route \<lparr>riskProfile_field = JString ''balanced'',
                      marketCondition_field = JString ''bullish''\<rparr>
       = \<lparr>status = 400, json = ErrorJson ''Invalid risk profile''\<rparr>
   \<and> status (optimize_route \<lparr>riskProfile_field = JString ''moderate'',
                      marketCondition_field = JString ''bullish''\<rparr>) = 200"
  using invalid_request_rejected [of "\<lparr>riskProfile_field = JString ''balanced'',
                      marketCondition_field = JString ''bullish''\<rparr>"]
  by (simp add: optimize_route_def)



section \<open>Properties of the locale normalization\<close>

lemma toUpperCase_char_idem: "toUpperCase_char (toUpperCase_char c) = toUpperCase_char c"
  by (simp add: toUpperCase_char_def split: option.splits)

lemma toUpperCase_idem: "toUpperCase (toUpperCase s) = toUpperCase s"
  by (simp add: toUpperCase_def toUpperCase_char_idem)

lemma map_of_MARKET_SYMBOLS_None:
  "map_of MARKET_SYMBOLS l = None \<longleftrightarrow> l \<notin> {''US'', ''IN'', ''UK'', ''SG''}"
  by (simp add: MARKET_SYMBOLS_def)

lemma toUpperCase_keys:
  "toUpperCase ''US'' = ''US''" "toUpperCase ''IN'' = ''IN''"
  "toUpperCase ''UK'' = ''UK''" "toUpperCase ''SG'' = ''SG''"
  by (simp_all add: toUpperCase_def toUpperCase_char_def)

lemma normalizeLocale_upper: "normalizeLocale (toUpperCase l) = normalizeLocale l"
  by (simp add: normalizeLocale_def toUpperCase_idem)

lemma normalizeLocale_unsupported:
  "toUpperCase l \<notin> {''US'', ''IN'', ''UK'', ''SG''} \<Longrightarrow> normalizeLocale l = ''IN''"
  by (simp add: normalizeLocale_def map_of_MARKET_SYMBOLS_None Let_def)

lemma normalizeLocale_IN: "normalizeLocale ''IN'' = ''IN''"
  by (simp add: normalizeLocale_def toUpperCase_keys MARKET_SYMBOLS_def)

lemma locale_fld_getMarketCondition:
  "locale_fld (fst (getMarketCondition cs l w)) = normalizeLocale l"
  by (simp add: getMarketCondition_def defaultResponse_def Let_def
      split: option.splits prod.splits sum.splits)

lemma getMarketCondition_cong:
  "normalizeLocale l = normalizeLocale l' \<Longrightarrow> getMarketCondition cs l w = getMarketCondition cs l' w"
  by (simp add: getMarketCondition_def)

lemma getMarketCondition_runs:
  "getMarketCondition sources_answering ''IN'' 0
     = (\<lparr>condition = Bullish, locale_fld = ''IN'',
         indicators = \<lparr>ind_volatilityIndex = 10, ind_mainIndex = 10, ind_trend = Up\<rparr>,
         localIndices =
           [\<lparr>idx_name = ''Sensex'', idx_value = 10, idx_change = 2\<rparr>,
            \<lparr>idx_name = ''Bank Nifty'', idx_value = 10, idx_change = 2\<rparr>,
            \<lparr>idx_name = ''Nifty IT'', idx_value = 10, idx_change = 2\<rparr>]\<rparr>, 8)"
  by (simp add: getMarketCondition_def normalizeLocale_IN MARKET_SYMBOLS_def sources_answering_def
      or_zero_def determineMarketCondition_def determineMarketTrend_def weightedCondition_def
      addSignal_def)



end
